theory Spec2Isabelle
  imports Main "HOL-Library.Word"
begin

unbundle bit_operations_syntax

section \<open>The pin definitions of \<^verbatim>\<open>pin_definitions.h\<close>\<close>

text \<open>
  The header is a list of object-like macros, each naming the GPIO number of one
  signal of the cartridge bus. Every macro is embedded as a constant of type
  \<open>nat\<close> with the value the header gives it. A bulk snapshot of the GPIO
  bank is a 32-bit word, in which GPIO \<open>n\<close> is bit \<open>n\<close>.
\<close>

type_synonym gpio_pin = nat
type_synonym gpio_word = "32 word"

subsection \<open>Address pins\<close>

definition A0 :: gpio_pin where "A0 = 0"
definition A1 :: gpio_pin where "A1 = 1"
definition A2 :: gpio_pin where "A2 = 2"
definition A3 :: gpio_pin where "A3 = 3"
definition A4 :: gpio_pin where "A4 = 4"
definition A5 :: gpio_pin where "A5 = 5"
definition A6 :: gpio_pin where "A6 = 6"
definition A7 :: gpio_pin where "A7 = 7"
definition A8 :: gpio_pin where "A8 = 8"
definition A9 :: gpio_pin where "A9 = 9"
definition A10 :: gpio_pin where "A10 = 10"
definition A11 :: gpio_pin where "A11 = 11"
definition A12 :: gpio_pin where "A12 = 12"
definition A13 :: gpio_pin where "A13 = 13"
definition A14 :: gpio_pin where "A14 = 14"
definition A15 :: gpio_pin where "A15 = 26"

subsection \<open>Control pins\<close>

definition RW :: gpio_pin where "RW = 25"
definition HALT :: gpio_pin where "HALT = 27"

subsection \<open>Data pins\<close>

definition D0 :: gpio_pin where "D0 = 15"
definition D1 :: gpio_pin where "D1 = 16"
definition D2 :: gpio_pin where "D2 = 17"
definition D3 :: gpio_pin where "D3 = 18"
definition D4 :: gpio_pin where "D4 = 19"
definition D5 :: gpio_pin where "D5 = 20"
definition D6 :: gpio_pin where "D6 = 21"
definition D7 :: gpio_pin where "D7 = 22"

subsection \<open>The three signal groups\<close>

text \<open>
  The header's comments divide the macros into address pins, control pins and data
  pins. Each group is the list of its macros in the order of the header, so that
  position \<open>i\<close> of \<open>address_pins\<close> is \<open>Ai\<close> and position \<open>i\<close> of
  \<open>data_pins\<close> is \<open>Di\<close>.
\<close>

definition address_pins :: "gpio_pin list" where
  "address_pins = [A0, A1, A2, A3, A4, A5, A6, A7, A8, A9, A10, A11, A12, A13, A14, A15]"

definition control_pins :: "gpio_pin list" where
  "control_pins = [RW, HALT]"

definition data_pins :: "gpio_pin list" where
  "data_pins = [D0, D1, D2, D3, D4, D5, D6, D7]"

definition all_pins :: "gpio_pin list" where
  "all_pins = address_pins @ control_pins @ data_pins"

subsection \<open>The header as a function of the values written into it\<close>







section \<open>Components that use the pins\<close>

text \<open>
  The header holds constants only. The masks and the operations that turn the pin
  layout into bulk reads and writes are described by the specification; they are
  modelled here from its words, on the constants of the header.
\<close>

subsection \<open>Derived masks\<close>

text \<open>
  Modelled from the spec: the mask of a group of lines (the header defines no mask).
  A mask has bit \<open>p\<close> set for every line \<open>p\<close> of the group and no other bit.
\<close>

fun pins_mask :: "gpio_pin list \<Rightarrow> gpio_word" where
  "pins_mask [] = 0"
| "pins_mask (p # ps) = push_bit p 1 OR pins_mask ps"

text \<open>
  Modelled from the spec: AddressMask, "covering the 15 contiguous address lines", that
  is \<open>A0\<close> to \<open>A14\<close>, the first 15 entries of \<open>address_pins\<close>.
\<close>

definition AddressMask :: gpio_word where
  "AddressMask = pins_mask (take 15 address_pins)"

text \<open>
  Modelled from the spec: DataMask, "covering the 8 contiguous data lines".
\<close>

definition DataMask :: gpio_word where
  "DataMask = pins_mask data_pins"

subsection \<open>Sampling the address bus\<close>

text \<open>
  Modelled from the spec: the read of one line out of a snapshot of all lines.
\<close>

definition gpio_get :: "gpio_word \<Rightarrow> gpio_pin \<Rightarrow> bool" where
  "gpio_get w p = bit w p"

text \<open>
  Modelled from the spec: the address part of \<open>sample()\<close> (the sampler is not in the
  header). It "extracts the 15 contiguous address bits via AddressMask in one
  masked-shift operation, reads the 16th address bit individually, and combines them
  into a single 16-bit value".
\<close>

definition sample_address :: "gpio_word \<Rightarrow> 16 word" where
  "sample_address w =
     ucast (drop_bit A0 (w AND AddressMask)) OR (if gpio_get w A15 then push_bit 15 1 else 0)"

text \<open>
  Modelled from the spec: the sampler the bulk read replaces, "16 individual reads".
  Line \<open>Ai\<close> is read on its own and becomes bit \<open>i\<close> of the address; the list of
  bits starts with bit 0.
\<close>

fun assemble_bits :: "bool list \<Rightarrow> 16 word" where
  "assemble_bits [] = 0"
| "assemble_bits (b # bs) = (if b then 1 else 0) OR push_bit 1 (assemble_bits bs)"

definition sample_address_per_line :: "gpio_word \<Rightarrow> 16 word" where
  "sample_address_per_line w = assemble_bits (map (gpio_get w) address_pins)"

subsection \<open>Driving the data bus\<close>

text \<open>
  Modelled from the spec: the state of the GPIO bank that the driver owns (the
  header has no driver). \<open>gpio_out\<close> holds the level each line drives when it is an
  output, \<open>gpio_oe\<close> has a bit set for every line configured as an output.
\<close>

record gpio_state =
  gpio_out :: gpio_word
  gpio_oe :: gpio_word

text \<open>
  Modelled from the spec: "one bulk masked write". Only the lines of the mask \<open>m\<close>
  take their level from \<open>v\<close>.
\<close>

definition bulk_write_masked :: "gpio_word \<Rightarrow> gpio_word \<Rightarrow> gpio_state \<Rightarrow> gpio_state" where
  "bulk_write_masked m v s = s\<lparr>gpio_out := (gpio_out s AND NOT m) OR (v AND m)\<rparr>"

text \<open>
  Modelled from the spec: "configures those lines as outputs".
\<close>

definition configure_outputs :: "gpio_word \<Rightarrow> gpio_state \<Rightarrow> gpio_state" where
  "configure_outputs m s = s\<lparr>gpio_oe := gpio_oe s OR m\<rparr>"

text \<open>
  Modelled from the spec: the "simulated bulk read" of all lines. A line configured
  as an output reads back the level it drives; any other line reads the level \<open>ext\<close>
  that the console puts on it.
\<close>

definition bulk_read :: "gpio_word \<Rightarrow> gpio_state \<Rightarrow> gpio_word" where
  "bulk_read ext s = (gpio_out s AND gpio_oe s) OR (ext AND NOT (gpio_oe s))"

text \<open>
  Modelled from the spec: \<open>drive(byte)\<close> "writes byte onto the 8 contiguous data lines
  via one bulk masked write using DataMask, and configures those lines as outputs".
  The byte is shifted to the position of \<open>D0\<close>.
\<close>

definition drive :: "8 word \<Rightarrow> gpio_state \<Rightarrow> gpio_state" where
  "drive b s = configure_outputs DataMask (bulk_write_masked DataMask (push_bit D0 (ucast b)) s)"

text \<open>
  Modelled from the spec: the byte on the data line positions of a bulk read.
\<close>

definition read_data :: "gpio_word \<Rightarrow> 8 word" where
  "read_data w = ucast (drop_bit D0 (w AND DataMask))"

subsection \<open>The structural invariants of the pin layout\<close>



section \<open>Facts about the pin constants\<close>

lemmas pin_defs =
  A0_def A1_def A2_def A3_def A4_def A5_def A6_def A7_def A8_def A9_def A10_def
  A11_def A12_def A13_def A14_def A15_def RW_def HALT_def
  D0_def D1_def D2_def D3_def D4_def D5_def D6_def D7_def

lemma address_pins_eval:
  "address_pins = [0, 1, 2, 3, 4, 5, 6, 7, 8, 9, 10, 11, 12, 13, 14, 26]"
  by (simp add: address_pins_def pin_defs)

lemma control_pins_eval: "control_pins = [25, 27]"
  by (simp add: control_pins_def pin_defs)

lemma data_pins_eval: "data_pins = [15, 16, 17, 18, 19, 20, 21, 22]"
  by (simp add: data_pins_def pin_defs)

lemma address_pins_upt: "address_pins = [0..<15] @ [26]"
  by (simp add: address_pins_eval upt_rec)

lemma data_pins_upt: "data_pins = [15..<23]"
  by (simp add: data_pins_eval upt_rec)

lemma set_data_pins: "set data_pins = {15..<23}"
  by (simp only: data_pins_upt set_upt)

lemma address_pins_nth_low: "i < 15 \<Longrightarrow> address_pins ! i = i"
  by (simp add: address_pins_upt nth_append)

lemma address_pins_nth_high: "address_pins ! 15 = 26"
  by (simp add: address_pins_eval)

lemma data_pins_nth: "i < 8 \<Longrightarrow> data_pins ! i = 15 + i"
  unfolding data_pins_upt by (rule nth_upt) simp

section \<open>Facts about the masks\<close>

lemma bit_line:
  "bit (push_bit p (1::'a::len word)) n \<longleftrightarrow> n = p \<and> n < LENGTH('a)"
  by (auto simp: bit_simps)

lemma bit_push_bit_word:
  "bit (push_bit k (x::'a::len word)) n \<longleftrightarrow> k \<le> n \<and> n < LENGTH('a) \<and> bit x (n - k)"
  by (auto simp: bit_simps)

lemma bit_pins_mask: "bit (pins_mask ps) n \<longleftrightarrow> n \<in> set ps \<and> n < 32"
  by (induction ps) (auto simp: bit_simps)

lemma AddressMask_value: "AddressMask = 0x00007FFF"
  by (simp add: AddressMask_def address_pins_eval)

lemma DataMask_value: "DataMask = 0x007F8000"
  by (simp add: DataMask_def data_pins_eval)

lemma bit_AddressMask: "bit AddressMask n \<longleftrightarrow> n < 15"
proof -
  have m: "AddressMask = mask 15"
    by (simp add: AddressMask_value mask_eq_exp_minus_1)
  show ?thesis
    unfolding m by (auto simp add: bit_mask_iff)
qed

lemma bit_DataMask: "bit DataMask n \<longleftrightarrow> 15 \<le> n \<and> n < 23"
proof -
  have "bit DataMask n \<longleftrightarrow> n \<in> {15..<23} \<and> n < 32"
    by (simp only: DataMask_def bit_pins_mask set_data_pins)
  then show ?thesis by auto
qed

lemma bit_data_word:
  "bit (push_bit D0 (ucast (b::8 word)) :: gpio_word) p \<longleftrightarrow> 15 \<le> p \<and> p < 23 \<and> bit b (p - 15)"
  by (auto simp add: D0_def bit_push_bit_iff bit_ucast_iff dest: bit_imp_le_length)

section \<open>Facts about the sampler\<close>

lemma bit_assemble_bits:
  "bit (assemble_bits bs) n \<longleftrightarrow> n < length bs \<and> n < 16 \<and> bs ! n"
proof (induction bs arbitrary: n)
  case Nil
  show ?case by simp
next
  case (Cons b bs)
  have "bit (assemble_bits (b # bs)) n \<longleftrightarrow>
      bit (if b then 1 else 0 :: 16 word) n \<or> (1 \<le> n \<and> n < 16 \<and> bit (assemble_bits bs) (n - 1))"
    by (simp only: assemble_bits.simps bit_or_iff bit_push_bit_word len_bit0 len_num1)
      simp
  then show ?case
    by (cases n) (auto simp add: Cons.IH bit_1_iff)
qed

lemma bit_sample_address:
  "bit (sample_address w) n \<longleftrightarrow> (n < 15 \<and> bit w n) \<or> (n = 15 \<and> bit w 26)"
proof -
  have hi: "bit (if gpio_get w A15 then push_bit 15 1 else 0 :: 16 word) n \<longleftrightarrow> n = 15 \<and> bit w 26"
    using bit_line [of 15 n, where 'a = 16] by (auto simp add: gpio_get_def A15_def)
  have lo: "bit (ucast (drop_bit A0 (w AND AddressMask)) :: 16 word) n \<longleftrightarrow> n < 15 \<and> bit w n"
    by (auto simp add: A0_def bit_ucast_iff bit_and_iff bit_AddressMask)
  show ?thesis
    unfolding sample_address_def bit_or_iff hi lo by blast
qed

lemma bit_sample_address_per_line:
  "bit (sample_address_per_line w) n \<longleftrightarrow> (n < 15 \<and> bit w n) \<or> (n = 15 \<and> bit w 26)"
proof -
  have len: "length address_pins = 16"
    by (simp add: address_pins_eval)
  have "bit (sample_address_per_line w) n \<longleftrightarrow> n < 16 \<and> bit w (address_pins ! n)"
    by (auto simp add: sample_address_per_line_def bit_assemble_bits len gpio_get_def)
  also have "\<dots> \<longleftrightarrow> (n < 15 \<and> bit w n) \<or> (n = 15 \<and> bit w 26)"
  proof (cases "n < 15")
    case True
    then show ?thesis by (simp add: address_pins_nth_low)
  next
    case False
    then show ?thesis
      by (cases "n = 15") (auto simp add: address_pins_nth_high)
  qed
  finally show ?thesis .
qed

section \<open>Facts about the driver\<close>

lemma bit_bulk_read_drive:
  "bit (bulk_read ext (drive b s)) p \<longleftrightarrow>
     (if 15 \<le> p \<and> p < 23 then bit b (p - 15) else bit (bulk_read ext s) p)"
  by (auto simp add: bulk_read_def drive_def configure_outputs_def bulk_write_masked_def
      bit_or_iff bit_and_iff bit_not_iff bit_DataMask bit_push_bit_iff bit_ucast_iff D0_def
      dest: bit_imp_le_length)

lemma read_data_drive: "read_data (bulk_read ext (drive b s)) = b"
proof (rule bit_eqI)
  fix n
  assume "possible_bit TYPE(8 word) n"
  then have n: "n < 8" by simp
  show "bit (read_data (bulk_read ext (drive b s))) n \<longleftrightarrow> bit b n"
    using n
    by (simp add: read_data_def bit_ucast_iff bit_drop_bit_eq bit_and_iff bit_DataMask
        bit_bulk_read_drive D0_def)
qed

lemma bulk_read_drive_data_lines:
  "bulk_read ext (drive b s) AND DataMask = push_bit D0 (ucast b)"
  by (rule bit_eqI) (auto simp add: bit_and_iff bit_DataMask bit_bulk_read_drive bit_data_word)

lemma drive_out_other_lines:
  "gpio_out (drive b s) AND NOT DataMask = gpio_out s AND NOT DataMask"
  by (rule bit_eqI)
    (auto simp add: drive_def configure_outputs_def bulk_write_masked_def
      bit_and_iff bit_or_iff bit_not_iff)

lemma drive_oe_other_lines:
  "gpio_oe (drive b s) AND NOT DataMask = gpio_oe s AND NOT DataMask"
  by (rule bit_eqI)
    (auto simp add: drive_def configure_outputs_def bulk_write_masked_def
      bit_and_iff bit_or_iff bit_not_iff)

section \<open>The claims\<close>

subsection \<open>Layout of the pins\<close>

text \<open>
  C1. The address signals \<open>A0\<close> to \<open>A14\<close> are on a contiguous ascending range of
  lines: \<open>A0\<close> is line 0 and, for every \<open>i\<close> from 0 to 13, \<open>A(i+1)\<close> is the line
  after \<open>Ai\<close>. So one masked read of the bulk input word (mask of 15 bits at the
  position of \<open>A0\<close>, shifted down by \<open>A0\<close>) recovers address bits 0 to 14: bit \<open>i\<close> of
  the result is the level of line \<open>Ai\<close>.
\<close>

theorem address_lines_contiguous:
  "A0 = 0
   \<and> (\<forall>i<14. address_pins ! (i + 1) = address_pins ! i + 1)
   \<and> (\<forall>w::gpio_word. \<forall>i<15.
        bit (drop_bit A0 (w AND push_bit A0 (mask 15))) i = bit w (address_pins ! i))"
  by (simp add: A0_def address_pins_nth_low bit_and_iff bit_mask_iff)

theorem address_lines_contiguous_witness:
  "(3::nat) < 14 \<and> address_pins ! (3 + 1) = address_pins ! 3 + 1
   \<and> (5::nat) < 15
   \<and> bit (drop_bit A0 (0x4000020 AND push_bit A0 (mask 15)) :: gpio_word) 5
       = bit (0x4000020 :: gpio_word) (address_pins ! 5)"
proof -
  have h1: "(3::nat) < 14" and h2: "(5::nat) < 15"
    by simp_all
  from h1 address_lines_contiguous
  have "address_pins ! (3 + 1) = address_pins ! 3 + 1"
    by blast
  moreover from h2 address_lines_contiguous
  have "bit (drop_bit A0 (0x4000020 AND push_bit A0 (mask 15)) :: gpio_word) 5
          = bit (0x4000020 :: gpio_word) (address_pins ! 5)"
    by blast
  ultimately show ?thesis
    using h1 h2 by blast
qed

text \<open>
  C2. The data signals \<open>D0\<close> to \<open>D7\<close> are on a contiguous ascending range of lines:
  for every \<open>i\<close> from 0 to 6, \<open>D(i+1)\<close> is the line after \<open>Di\<close>. So one write of
  the byte shifted to the position of \<open>D0\<close> places all 8 data bits at once: line
  \<open>Di\<close> carries bit \<open>i\<close> of the byte.
\<close>

theorem data_lines_contiguous:
  "(\<forall>i<7. data_pins ! (i + 1) = data_pins ! i + 1)
   \<and> (\<forall>b::8 word. \<forall>i<8.
        bit (push_bit D0 (ucast b) :: gpio_word) (data_pins ! i) = bit b i)"
  by (simp add: data_pins_nth bit_data_word)

theorem data_lines_contiguous_witness:
  "(3::nat) < 7 \<and> data_pins ! (3 + 1) = data_pins ! 3 + 1
   \<and> (2::nat) < 8
   \<and> bit (push_bit D0 (ucast (0xA5 :: 8 word)) :: gpio_word) (data_pins ! 2)
       = bit (0xA5 :: 8 word) 2"
proof -
  have h1: "(3::nat) < 7" and h2: "(2::nat) < 8"
    by simp_all
  from h1 data_lines_contiguous
  have "data_pins ! (3 + 1) = data_pins ! 3 + 1"
    by blast
  moreover from h2 data_lines_contiguous
  have "bit (push_bit D0 (ucast (0xA5 :: 8 word)) :: gpio_word) (data_pins ! 2)
          = bit (0xA5 :: 8 word) 2"
    by blast
  ultimately show ?thesis
    using h1 h2 by blast
qed

text \<open>
  C3. No line index appears in more than one signal group: the index sets of the
  address group \<open>A0..A15\<close>, the control group \<open>RW, HALT\<close> and the data group
  \<open>D0..D7\<close> are pairwise disjoint, and within each group all indices are distinct.
\<close>

theorem pin_groups_disjoint:
  "distinct address_pins \<and> distinct control_pins \<and> distinct data_pins
   \<and> set address_pins \<inter> set control_pins = {}
   \<and> set address_pins \<inter> set data_pins = {}
   \<and> set control_pins \<inter> set data_pins = {}
   \<and> distinct all_pins"
  by (simp add: all_pins_def address_pins_eval control_pins_eval data_pins_eval)

text \<open>
  C8. The pin contract maps exactly 26 physical lines, in exactly three groups of
  fixed sizes: 16 address lines, 2 control lines and 8 data lines. The mapping is a
  fixed constant: the list of the 26 line indices is the one written out below.
\<close>

theorem pin_contract_sizes:
  "length all_pins = 26 \<and> card (set all_pins) = 26
   \<and> length address_pins = 16 \<and> length control_pins = 2 \<and> length data_pins = 8
   \<and> set all_pins = set address_pins \<union> set control_pins \<union> set data_pins
   \<and> all_pins = [0, 1, 2, 3, 4, 5, 6, 7, 8, 9, 10, 11, 12, 13, 14, 26,
                 25, 27,
                 15, 16, 17, 18, 19, 20, 21, 22]"
proof -
  have "set all_pins = set address_pins \<union> set control_pins \<union> set data_pins"
    by (simp add: all_pins_def Un_assoc)
  then show ?thesis
    by (simp add: all_pins_def address_pins_eval control_pins_eval data_pins_eval)
qed

text \<open>
  C9. The data group begins right after the contiguous address range:
  \<open>D0 = A14 + 1 = 15\<close>. The 15 contiguous address lines and the 8 data lines
  together occupy the single span of lines 0 to 22, and a data byte is placed in the
  bulk word by a shift of \<open>D0\<close>, which is 15: the shifted byte occupies exactly the
  bits 15 to 22, bit \<open>p\<close> being bit \<open>p - 15\<close> of the byte.
\<close>

theorem data_follows_address:
  "D0 = A14 + 1 \<and> D0 = 15
   \<and> take 15 address_pins @ data_pins = [0..<23]
   \<and> set (take 15 address_pins @ data_pins) = {0..22}
   \<and> (\<forall>(b::8 word) p.
        bit (push_bit D0 (ucast b) :: gpio_word) p = (15 \<le> p \<and> p < 23 \<and> bit b (p - 15)))"
proof (intro conjI allI)
  show "D0 = A14 + 1" and "D0 = 15"
    by (simp_all add: pin_defs)
  show "take 15 address_pins @ data_pins = [0..<23]"
    by (simp add: address_pins_eval data_pins_eval upt_rec)
  show "set (take 15 address_pins @ data_pins) = {0..22}"
    by (auto simp add: address_pins_upt data_pins_upt)
  show "bit (push_bit D0 (ucast b) :: gpio_word) p = (15 \<le> p \<and> p < 23 \<and> bit b (p - 15))"
    for b :: "8 word" and p
    by (rule bit_data_word)
qed

text \<open>
  C10. Every pin constant of the header lies in the range 0 to 27. The three lines
  outside the two contiguous groups form a contiguous block 25 to 27 of their own, with
  the high address line \<open>A15 = 26\<close> between the control lines \<open>RW = 25\<close> and
  \<open>HALT = 27\<close>.
\<close>

theorem pins_in_range:
  "set all_pins \<subseteq> {0..27}
   \<and> RW = 25 \<and> A15 = 26 \<and> HALT = 27
   \<and> {RW, A15, HALT} = {25..27}
   \<and> A15 = RW + 1 \<and> HALT = A15 + 1
   \<and> set all_pins - set (take 15 address_pins) - set data_pins = {RW, A15, HALT}"
proof (intro conjI)
  show "set all_pins \<subseteq> {0..27}"
    by (simp add: all_pins_def address_pins_eval control_pins_eval data_pins_eval)
  show "RW = 25" and "A15 = 26" and "HALT = 27" and "A15 = RW + 1" and "HALT = A15 + 1"
    by (simp_all add: pin_defs)
  show "{RW, A15, HALT} = {25..27}"
    by (auto simp add: pin_defs)
  show "set all_pins - set (take 15 address_pins) - set data_pins = {RW, A15, HALT}"
    by (auto simp add: all_pins_def address_pins_eval control_pins_eval data_pins_eval pin_defs)
qed

subsection \<open>Masks, sampler and driver\<close>

text \<open>
  C6. The two derived masks are determined by the pin constants and cover exactly
  their groups: AddressMask has bit \<open>p\<close> set if and only if \<open>p\<close> is one of the lines
  \<open>A0..A14\<close>, so it is 0x00007FFF; DataMask has bit \<open>p\<close> set if and only if \<open>p\<close> is
  one of the lines \<open>D0..D7\<close>, so it is 0x007F8000; the two masks are disjoint from
  each other and from the bits of \<open>A15\<close>, \<open>RW\<close> and \<open>HALT\<close>.
\<close>

theorem masks_cover_groups:
  "AddressMask = 0x00007FFF \<and> DataMask = 0x007F8000
   \<and> (\<forall>p. bit AddressMask p \<longleftrightarrow>
          p \<in> {A0, A1, A2, A3, A4, A5, A6, A7, A8, A9, A10, A11, A12, A13, A14})
   \<and> (\<forall>p. bit DataMask p \<longleftrightarrow> p \<in> {D0, D1, D2, D3, D4, D5, D6, D7})
   \<and> AddressMask AND DataMask = 0
   \<and> \<not> bit AddressMask A15 \<and> \<not> bit AddressMask RW \<and> \<not> bit AddressMask HALT
   \<and> \<not> bit DataMask A15 \<and> \<not> bit DataMask RW \<and> \<not> bit DataMask HALT"
proof -
  have a: "bit AddressMask p \<longleftrightarrow>
      p \<in> {A0, A1, A2, A3, A4, A5, A6, A7, A8, A9, A10, A11, A12, A13, A14}" for p
  proof -
    have "set (take 15 address_pins)
        = {A0, A1, A2, A3, A4, A5, A6, A7, A8, A9, A10, A11, A12, A13, A14}"
      by (simp add: address_pins_def)
    then have "bit AddressMask p \<longleftrightarrow>
        p \<in> {A0, A1, A2, A3, A4, A5, A6, A7, A8, A9, A10, A11, A12, A13, A14} \<and> p < 32"
      by (simp only: AddressMask_def bit_pins_mask)
    then show ?thesis by (auto simp: pin_defs)
  qed
  have d: "bit DataMask p \<longleftrightarrow> p \<in> {D0, D1, D2, D3, D4, D5, D6, D7}" for p
  proof -
    have "set data_pins = {D0, D1, D2, D3, D4, D5, D6, D7}"
      by (simp add: data_pins_def)
    then have "bit DataMask p \<longleftrightarrow> p \<in> {D0, D1, D2, D3, D4, D5, D6, D7} \<and> p < 32"
      by (simp only: DataMask_def bit_pins_mask)
    then show ?thesis by (auto simp: pin_defs)
  qed
  have "AddressMask AND DataMask = 0"
    by (simp add: AddressMask_value DataMask_value)
  moreover have "\<not> bit AddressMask A15 \<and> \<not> bit AddressMask RW \<and> \<not> bit AddressMask HALT"
    by (simp add: bit_AddressMask pin_defs)
  moreover have "\<not> bit DataMask A15 \<and> \<not> bit DataMask RW \<and> \<not> bit DataMask HALT"
    by (simp add: bit_DataMask pin_defs)
  ultimately show ?thesis
    using a d AddressMask_value DataMask_value by blast
qed

text \<open>
  C4. For every 32-bit bulk snapshot \<open>w\<close> of the lines, extracting the 15 contiguous
  address bits by one masked shift through AddressMask and adding the individually read
  \<open>A15\<close> (line 26) as bit 15 gives the same 16-bit address as reading each of the 16
  lines \<open>A0..A15\<close> on its own and assembling the bits. The line of \<open>A15\<close> is not
  contiguous with the range of \<open>A0..A14\<close>.
\<close>

theorem sample_address_refines_per_line:
  "sample_address w = sample_address_per_line w \<and> A15 = 26 \<and> A15 \<noteq> A14 + 1"
proof (intro conjI)
  show "sample_address w = sample_address_per_line w"
    by (rule bit_eqI) (simp only: bit_sample_address bit_sample_address_per_line)
  show "A15 = 26" and "A15 \<noteq> A14 + 1"
    by (simp_all add: pin_defs)
qed

text \<open>
  C5. For every byte \<open>b\<close>, in every state of the GPIO bank and whatever the console
  puts on the lines, \<open>drive b\<close> followed by a simulated bulk read returns exactly \<open>b\<close>
  on the data line positions, and no line outside the data group (in particular no
  address or control line) is affected: it reads as before, and its output level and
  direction are unchanged.
\<close>

theorem drive_read_roundtrip:
  "read_data (bulk_read ext (drive b s)) = b
   \<and> bulk_read ext (drive b s) AND DataMask = push_bit D0 (ucast b)
   \<and> (\<forall>p. p \<notin> set data_pins \<longrightarrow>
          bit (bulk_read ext (drive b s)) p = bit (bulk_read ext s) p)
   \<and> (\<forall>p \<in> set address_pins \<union> set control_pins.
          bit (bulk_read ext (drive b s)) p = bit (bulk_read ext s) p)
   \<and> gpio_out (drive b s) AND NOT DataMask = gpio_out s AND NOT DataMask
   \<and> gpio_oe (drive b s) AND NOT DataMask = gpio_oe s AND NOT DataMask"
proof (intro conjI allI impI ballI)
  show "read_data (bulk_read ext (drive b s)) = b"
    by (rule read_data_drive)
  show "bulk_read ext (drive b s) AND DataMask = push_bit D0 (ucast b)"
    by (rule bulk_read_drive_data_lines)
  show "gpio_out (drive b s) AND NOT DataMask = gpio_out s AND NOT DataMask"
    by (rule drive_out_other_lines)
  show "gpio_oe (drive b s) AND NOT DataMask = gpio_oe s AND NOT DataMask"
    by (rule drive_oe_other_lines)
next
  fix p assume "p \<notin> set data_pins"
  then have "\<not> (15 \<le> p \<and> p < 23)"
    by (auto simp add: data_pins_upt)
  then show "bit (bulk_read ext (drive b s)) p = bit (bulk_read ext s) p"
    by (auto simp add: bit_bulk_read_drive)
next
  fix p assume "p \<in> set address_pins \<union> set control_pins"
  then have "\<not> (15 \<le> p \<and> p < 23)"
    by (auto simp add: address_pins_upt control_pins_eval)
  then show "bit (bulk_read ext (drive b s)) p = bit (bulk_read ext s) p"
    by (auto simp add: bit_bulk_read_drive)
qed

theorem drive_read_roundtrip_witness:
  "RW \<notin> set data_pins \<and> A15 \<in> set address_pins \<union> set control_pins
   \<and> read_data (bulk_read 0x6000000 (drive 0xA5 \<lparr>gpio_out = 0, gpio_oe = 0\<rparr>)) = 0xA5
   \<and> bit (bulk_read 0x6000000 (drive 0xA5 \<lparr>gpio_out = 0, gpio_oe = 0\<rparr>)) RW
       = bit (bulk_read 0x6000000 \<lparr>gpio_out = 0, gpio_oe = 0\<rparr>) RW
   \<and> bit (bulk_read 0x6000000 (drive 0xA5 \<lparr>gpio_out = 0, gpio_oe = 0\<rparr>)) A15
       = bit (bulk_read 0x6000000 \<lparr>gpio_out = 0, gpio_oe = 0\<rparr>) A15"
proof -
  have h1: "RW \<notin> set data_pins"
    by (simp add: data_pins_eval RW_def)
  have h2: "A15 \<in> set address_pins \<union> set control_pins"
    by (simp add: address_pins_def)
  show ?thesis
    using h1 h2 drive_read_roundtrip [of "0x6000000" "0xA5" "\<lparr>gpio_out = 0, gpio_oe = 0\<rparr>"]
    by blast
qed

subsection \<open>No validation of the pin layout\<close>



end
